theory Spec2Isabelle
  imports Main "HOL-Library.Word"
begin

section \<open>Shared types (package datatransfer, types.go)\<close>

type_synonym byte = "8 word"

text \<open>
  Go errors. \<open>New\<close> is \<^verbatim>\<open>errors.New\<close> / \<^verbatim>\<open>xerrors.New\<close> and an
  \<^verbatim>\<open>Errorf\<close> without an operand; \<open>Errorf msg e\<close> is
  \<^verbatim>\<open>xerrors.Errorf("msg: %w", e)\<close>, the error \<open>e\<close> wrapped under a prefix.
\<close>

datatype error = New string | Errorf string error

definition ErrChannelNotFound :: error where
  "ErrChannelNotFound = New ''channel not found''"

type_synonym TypeIdentifier = string

definition EmptyTypeIdentifier :: TypeIdentifier where
  "EmptyTypeIdentifier = ''''"

type_synonym TransferID = "64 word"

text \<open>\<^verbatim>\<open>peer.ID\<close> is a Go string type, kept here as the text that \<^verbatim>\<open>%s\<close> prints
  for it; \<^verbatim>\<open>cid.Cid\<close> is a struct around one string, compared with \<^verbatim>\<open>==\<close>, and
  \<^verbatim>\<open>cid.Undef\<close> is its zero value.\<close>

type_synonym peer_ID = string

type_synonym Cid = string

definition Undef :: Cid where
  "Undef = ''''"

text \<open>
  \<^verbatim>\<open>encoding.Encodable\<close> is an interface value handed to \<^verbatim>\<open>encoding.Encode\<close>,
  which is not under src/. An encodable value is kept as what \<^verbatim>\<open>encoding.Encode\<close>
  gives on it: the bytes or an error. \<^verbatim>\<open>Registerable\<close> embeds
  \<^verbatim>\<open>encoding.Encodable\<close> and adds the method \<^verbatim>\<open>Type()\<close>; \<^verbatim>\<open>Voucher\<close> and
  \<^verbatim>\<open>VoucherResult\<close> are \<^verbatim>\<open>Registerable\<close>; an \<^verbatim>\<open>ipld.Node\<close> is encodable.
\<close>

record Encodable =
  encoded :: "error + byte list"

record Registerable = Encodable +
  Type :: TypeIdentifier

type_synonym Voucher = Registerable
type_synonym VoucherResult = Registerable
type_synonym Node = Encodable

definition Encode :: "'a Encodable_scheme \<Rightarrow> error + byte list" where
  "Encode v = encoded v"

datatype Status =
    Requested
  | Ongoing
  | TransferFinished
  | ResponderCompleted
  | Completed
  | Failed
  | Cancelled
  | SenderPaused
  | ReceiverPaused
  | BothPaused
  | ResponderCompletedReceiverPaused
  | ChannelNotFoundError

record ChannelID =
  Initiator :: peer_ID
  ID :: TransferID

text \<open>Decimal digits of a natural number, as \<^verbatim>\<open>%d\<close> prints them.\<close>

fun digits :: "nat \<Rightarrow> string" where
  "digits n =
     (if n < 10 then [''0123456789'' ! n]
      else digits (n div 10) @ [''0123456789'' ! (n mod 10)])"

declare digits.simps [simp del]

text \<open>\<^verbatim>\<open>func (c ChannelID) String() string\<close>: \<^verbatim>\<open>fmt.Sprintf("%s-%d", c.Initiator, c.ID)\<close>.\<close>

definition String :: "ChannelID \<Rightarrow> string" where
  "String c = Initiator c @ ''-'' @ digits (unat (ID c))"

section \<open>Messages (package message, message.go)\<close>

text \<open>
  The interfaces of message.go, as the lists of the methods they declare. The first
  embeds \<^verbatim>\<open>cborgen.CBORMarshaler\<close> and \<^verbatim>\<open>cborgen.CBORUnmarshaler\<close>; the other two
  embed the first.
\<close>

definition DataTransferMessage :: "string list" where
  "DataTransferMessage =
     [''IsRequest'', ''IsUpdate'', ''IsPaused'', ''IsCancel'', ''TransferID'',
      ''MarshalCBOR'', ''UnmarshalCBOR'', ''ToNet'']"

definition DataTransferRequest :: "string list" where
  "DataTransferRequest =
     DataTransferMessage @
     [''IsPull'', ''VoucherType'', ''Voucher'', ''EmptyVoucher'', ''BaseCid'', ''Selector'']"

definition DataTransferResponse :: "string list" where
  "DataTransferResponse =
     DataTransferMessage @
     [''Accepted'', ''VoucherResultType'', ''VoucherResult'', ''EmptyVoucherResult'']"

definition exposes :: "string list \<Rightarrow> string \<Rightarrow> bool" where
  "exposes iface name = (name \<in> set iface)"

text \<open>
  The structs \<^verbatim>\<open>transferRequest\<close>, \<^verbatim>\<open>transferResponse\<close> and \<^verbatim>\<open>transferMessage\<close>
  are declared outside message.go; their fields are the ones its constructors and
  \<^verbatim>\<open>FromNet\<close> set and read. A pointer field is an option (\<open>None\<close> is nil); a
  \<^verbatim>\<open>cborgen.Deferred\<close> is its \<^verbatim>\<open>Raw\<close> bytes. A field a constructor leaves out has
  Go's zero value.
\<close>

record transferRequest =
  BCid :: "Cid option"
  Canc :: bool
  Updt :: bool
  Paus :: bool
  Pull :: bool
  Stor :: "byte list option"
  Vouch :: "byte list option"
  VTyp :: TypeIdentifier
  XferID :: "64 word"

record transferResponse =
  RAcpt :: bool
  RCanc :: bool
  RUpdt :: bool
  RPaus :: bool
  RVTyp :: TypeIdentifier
  RVRes :: "byte list option"
  RXferID :: "64 word"

definition NewRequest ::
  "TransferID \<Rightarrow> bool \<Rightarrow> TypeIdentifier \<Rightarrow> 'a Encodable_scheme \<Rightarrow> Cid \<Rightarrow> 'b Encodable_scheme
   \<Rightarrow> error + transferRequest" where
  "NewRequest xid isPull vtype voucher baseCid selector =
     (case Encode voucher of
        Inl err \<Rightarrow> Inl (Errorf ''Creating request'' err)
      | Inr vbytes \<Rightarrow>
          if baseCid = Undef then Inl (New ''base CID must be defined'')
          else (case Encode selector of
                  Inl err \<Rightarrow> Inl (New ''Error encoding selector'')
                | Inr selBytes \<Rightarrow>
                    Inr \<lparr>BCid = Some baseCid, Canc = False, Updt = False, Paus = False,
                         Pull = isPull, Stor = Some selBytes, Vouch = Some vbytes,
                         VTyp = vtype, XferID = xid\<rparr>))"

definition CancelRequest :: "TransferID \<Rightarrow> transferRequest" where
  "CancelRequest xid =
     \<lparr>BCid = None, Canc = True, Updt = False, Paus = False, Pull = False,
      Stor = None, Vouch = None, VTyp = EmptyTypeIdentifier, XferID = xid\<rparr>"

definition UpdateRequest ::
  "TransferID \<Rightarrow> bool \<Rightarrow> TypeIdentifier \<Rightarrow> 'a Encodable_scheme \<Rightarrow> error + transferRequest" where
  "UpdateRequest xid isPaused vtype voucher =
     (case Encode voucher of
        Inl err \<Rightarrow> Inl (Errorf ''Creating request'' err)
      | Inr vbytes \<Rightarrow>
          Inr \<lparr>BCid = None, Canc = False, Updt = True, Paus = isPaused, Pull = False,
               Stor = None, Vouch = Some vbytes, VTyp = vtype, XferID = xid\<rparr>)"

definition NewResponse ::
  "TransferID \<Rightarrow> bool \<Rightarrow> bool \<Rightarrow> bool \<Rightarrow> TypeIdentifier \<Rightarrow> 'a Encodable_scheme
   \<Rightarrow> error + transferResponse" where
  "NewResponse xid accepted isUpdate isPaused voucherResultType voucherResult =
     (case Encode voucherResult of
        Inl err \<Rightarrow> Inl (Errorf ''Creating request'' err)
      | Inr vbytes \<Rightarrow>
          Inr \<lparr>RAcpt = accepted, RCanc = False, RUpdt = isUpdate, RPaus = isPaused,
               RVTyp = voucherResultType, RVRes = Some vbytes, RXferID = xid\<rparr>)"

definition CancelResponse :: "TransferID \<Rightarrow> transferResponse" where
  "CancelResponse xid =
     \<lparr>RAcpt = False, RCanc = True, RUpdt = False, RPaus = False,
      RVTyp = EmptyTypeIdentifier, RVRes = None, RXferID = xid\<rparr>"

text \<open>
  The envelope \<^verbatim>\<open>transferMessage\<close>: \<^verbatim>\<open>FromNet\<close> reads its fields \<^verbatim>\<open>Request\<close> and
  \<^verbatim>\<open>Response\<close> and calls its method \<^verbatim>\<open>IsRequest()\<close>.
\<close>

record transferMessage =
  IsRq :: bool
  Request :: "transferRequest option"
  Response :: "transferResponse option"

text \<open>Modelled from the spec: the method \<^verbatim>\<open>IsRequest()\<close> of the envelope is not under
  src/; the spec gives the envelope a boolean \<^verbatim>\<open>IsRequest\<close> flag that tells a request
  from a response.\<close>

definition IsRequest :: "transferMessage \<Rightarrow> bool" where
  "IsRequest tm = IsRq tm"

text \<open>What \<^verbatim>\<open>FromNet\<close> returns as a \<^verbatim>\<open>DataTransferMessage\<close>: the request pointer or
  the response pointer of the envelope, either of which may be nil.\<close>

datatype Message = RequestMsg "transferRequest option" | ResponseMsg "transferResponse option"

text \<open>
  \<^verbatim>\<open>FromNet\<close>. The generated \<^verbatim>\<open>UnmarshalCBOR\<close> is not under src/ and is a parameter:
  from the envelope it is called on and the bytes of the reader it gives the envelope
  as it leaves it and the error it returns.
\<close>

definition FromNet ::
  "(transferMessage \<Rightarrow> byte list \<Rightarrow> transferMessage \<times> error option) \<Rightarrow> byte list
   \<Rightarrow> Message \<times> error option" where
  "FromNet UnmarshalCBOR r =
     (let (tresp, err) = UnmarshalCBOR \<lparr>IsRq = False, Request = None, Response = None\<rparr> r
      in if IsRequest tresp then (RequestMsg (Request tresp), None)
         else (ResponseMsg (Response tresp), err))"

section \<open>The channel store (package channels)\<close>

text \<open>
  \<^verbatim>\<open>ChannelState\<close> is an interface value: the record holds what each method of the
  interfaces \<^verbatim>\<open>Channel\<close> and \<^verbatim>\<open>ChannelState\<close> of types.go returns, a method with an
  argument as a function. restart.go also calls \<^verbatim>\<open>ChannelID()\<close> and
  \<^verbatim>\<open>ReceivedCids()\<close> on a channel state; they are fields too.
\<close>

record ChannelState =
  TransferID :: TransferID
  BaseCID :: Cid
  Selector :: Node
  Voucher :: Voucher
  Sender :: peer_ID
  Recipient :: peer_ID
  TotalSize :: "64 word"
  IsPull :: "peer_ID \<Rightarrow> bool"
  OtherParty :: "peer_ID \<Rightarrow> peer_ID"
  Status :: Status
  Sent :: "64 word"
  Received :: "64 word"
  Message :: string
  Vouchers :: "Voucher list"
  VoucherResults :: "VoucherResult list"
  LastVoucher :: Voucher
  LastVoucherResult :: VoucherResult
  ChannelID :: ChannelID
  ReceivedCids :: "Cid list"

type_synonym Channels = "ChannelID \<rightharpoonup> ChannelState"

text \<open>Modelled from the spec: \<^verbatim>\<open>channels.IsChannelTerminated\<close> is not under src/. The
  spec calls a channel terminal when its status is Completed, Failed or Cancelled.\<close>

definition IsChannelTerminated :: "Status \<Rightarrow> bool" where
  "IsChannelTerminated st = (st = Completed \<or> st = Failed \<or> st = Cancelled)"

text \<open>Modelled from the spec: \<^verbatim>\<open>Channels.GetByID\<close> is not under src/. The spec has
  \<^verbatim>\<open>GetByID(chid) -> ChannelState | NotFound\<close> on a mapping from channel ids to
  channel states.\<close>

definition GetByID :: "Channels \<Rightarrow> ChannelID \<Rightarrow> error + ChannelState" where
  "GetByID store chid =
     (case store chid of None \<Rightarrow> Inl ErrChannelNotFound | Some channel \<Rightarrow> Inr channel)"

text \<open>The text of an error (\<^verbatim>\<open>err.Error()\<close>): a wrapped error prints after its prefix.\<close>

primrec Error_text :: "error \<Rightarrow> string" where
  "Error_text (New s) = s"
| "Error_text (Errorf s e) = s @ '': '' @ Error_text e"

text \<open>Modelled from the spec: \<^verbatim>\<open>Channels.Error\<close> is not under src/. The spec has
  \<^verbatim>\<open>Error(chid, reason)\<close>: any non-terminal status goes to Failed and the diagnostic is
  stored; a mutation of a terminal channel fails (AlreadyTerminated), one of an unknown
  channel fails (NotFound), and neither changes the store.\<close>

definition channels_Error :: "Channels \<Rightarrow> ChannelID \<Rightarrow> error \<Rightarrow> error option \<times> Channels" where
  "channels_Error store chid err =
     (case store chid of
        None \<Rightarrow> (Some ErrChannelNotFound, store)
      | Some channel \<Rightarrow>
          if IsChannelTerminated (Status channel)
          then (Some (New ''channel is already terminated''), store)
          else (None, store(chid \<mapsto> channel\<lparr>Status := Failed, Message := Error_text err\<rparr>)))"

section \<open>The manager's restart paths (package impl, restart.go)\<close>

text \<open>
  Modelled from the spec: the request type of restart.go (\<^verbatim>\<open>datatransfer.Request\<close>)
  and its constructors, the seven-argument \<^verbatim>\<open>message.NewRequest\<close> and
  \<^verbatim>\<open>message.RestartExistingChannelRequest\<close>, are not under src/ (message.go has the
  six-argument \<^verbatim>\<open>NewRequest\<close>). The spec has
  \<^verbatim>\<open>NewRequest(id, isRestart, isPull, vtype, voucher, baseCid, selector)\<close>, which
  fails if the base CID is the zero CID or the selector fails to encode, a request field
  \<^verbatim>\<open>IsRestart\<close>, and \<^verbatim>\<open>RestartRequest(channelID)\<close>, which carries both halves of
  the channel id. A request is the request of message.go under its restart flag, or a
  restart request for a channel id.
\<close>

datatype Request =
    TransferRequest bool transferRequest
  | RestartExistingChannelRequest ChannelID

text \<open>Modelled from the spec: the seven-argument \<^verbatim>\<open>message.NewRequest\<close> is not under
  src/. It is the \<^verbatim>\<open>NewRequest\<close> of message.go, with the same failures, and the
  request it returns carries the restart flag it is given.\<close>

definition message_NewRequest ::
  "TransferID \<Rightarrow> bool \<Rightarrow> bool \<Rightarrow> TypeIdentifier \<Rightarrow> 'a Encodable_scheme \<Rightarrow> Cid
   \<Rightarrow> 'b Encodable_scheme \<Rightarrow> error + Request" where
  "message_NewRequest xid isRestart isPull vtype voucher baseCid selector =
     (case NewRequest xid isPull vtype voucher baseCid selector of
        Inl err \<Rightarrow> Inl err
      | Inr req \<Rightarrow> Inr (TransferRequest isRestart req))"

text \<open>Modelled from the spec: the method \<^verbatim>\<open>BaseCid()\<close> of a request is declared in
  message.go and implemented outside src/. The spec has the request field
  \<^verbatim>\<open>BaseCID: cid | null\<close>; a request without one gives the undefined CID.\<close>

fun BaseCid :: "Request \<Rightarrow> Cid" where
  "BaseCid (TransferRequest isRestart req) = (case BCid req of None \<Rightarrow> Undef | Some c \<Rightarrow> c)"
| "BaseCid (RestartExistingChannelRequest chid) = Undef"

text \<open>
  The calls the manager makes on its collaborators, in the order it makes them: the
  network (\<^verbatim>\<open>Protect\<close>, \<^verbatim>\<open>SendMessage\<close>; \<^verbatim>\<open>Unprotect\<close> is the third method the
  spec gives the network interface, and restart.go never calls it), the transport
  (\<^verbatim>\<open>OpenChannel\<close> with the peer, the channel id, the root CID of the link, the
  selector, the CIDs already received and the request) and a registered transport
  configurer (called with the channel id, the voucher and the transport).
\<close>

datatype call =
    Net_Protect peer_ID string
  | Net_Unprotect peer_ID string
  | Net_SendMessage peer_ID Request
  | Transport_OpenChannel peer_ID ChannelID Cid Node "Cid list" Request
  | TransportConfigurer ChannelID Voucher

text \<open>
  The manager. Its collaborators are not under src/ and are fields: whether
  \<^verbatim>\<open>SendMessage\<close> and \<^verbatim>\<open>OpenChannel\<close> fail on given arguments, what
  \<^verbatim>\<open>m.decodeVoucher(req, m.validatedTypes)\<close> and the error of \<^verbatim>\<open>m.validateVoucher\<close>
  are, and whether \<^verbatim>\<open>m.transportConfigurers.Processor\<close> has a processor for a type.
  The state the restart paths can change is the channel store \<open>channels\<close> and the
  sequence \<open>calls\<close> of calls made so far.
\<close>

record manager =
  peerID :: peer_ID
  channels :: Channels
  calls :: "call list"
  SendMessage :: "peer_ID \<Rightarrow> Request \<Rightarrow> error option"
  OpenChannel :: "peer_ID \<Rightarrow> ChannelID \<Rightarrow> Cid \<Rightarrow> Node \<Rightarrow> Cid list \<Rightarrow> Request \<Rightarrow> error option"
  decodeVoucher :: "Request \<Rightarrow> error + Voucher"
  validateVoucher :: "peer_ID \<Rightarrow> Request \<Rightarrow> bool \<Rightarrow> Cid \<Rightarrow> Node \<Rightarrow> error option"
  transportConfigurers :: "TypeIdentifier \<Rightarrow> bool"

definition dataTransferNetwork_Protect :: "manager \<Rightarrow> peer_ID \<Rightarrow> string \<Rightarrow> manager" where
  "dataTransferNetwork_Protect m p tag = m\<lparr>calls := calls m @ [Net_Protect p tag]\<rparr>"

definition dataTransferNetwork_SendMessage ::
  "manager \<Rightarrow> peer_ID \<Rightarrow> Request \<Rightarrow> error option \<times> manager" where
  "dataTransferNetwork_SendMessage m p req =
     (SendMessage m p req, m\<lparr>calls := calls m @ [Net_SendMessage p req]\<rparr>)"

definition transport_OpenChannel ::
  "manager \<Rightarrow> peer_ID \<Rightarrow> ChannelID \<Rightarrow> Cid \<Rightarrow> Node \<Rightarrow> Cid list \<Rightarrow> Request \<Rightarrow> error option \<times> manager" where
  "transport_OpenChannel m p chid root selector have req =
     (OpenChannel m p chid root selector have req,
      m\<lparr>calls := calls m @ [Transport_OpenChannel p chid root selector have req]\<rparr>)"

definition transportConfigurer :: "manager \<Rightarrow> ChannelID \<Rightarrow> Voucher \<Rightarrow> manager" where
  "transportConfigurer m chid voucher = m\<lparr>calls := calls m @ [TransportConfigurer chid voucher]\<rparr>"

text \<open>\<^verbatim>\<open>_ = m.channels.Error(chid, err)\<close>: the store is updated, the result dropped.\<close>

definition m_channels_Error :: "manager \<Rightarrow> ChannelID \<Rightarrow> error \<Rightarrow> manager" where
  "m_channels_Error m chid err = m\<lparr>channels := snd (channels_Error (channels m) chid err)\<rparr>"

definition validateRestartVoucher :: "manager \<Rightarrow> ChannelState \<Rightarrow> bool \<Rightarrow> error option \<times> manager" where
  "validateRestartVoucher m channel isPull =
     (let chid = ChannelID channel
      in case message_NewRequest (ID chid) False isPull (Type (Voucher channel)) (Voucher channel)
                (BaseCID channel) (Selector channel) of
           Inl err \<Rightarrow> (Some err, m)
         | Inr req \<Rightarrow>
             (case validateVoucher m (OtherParty channel (peerID m)) req isPull
                     (BaseCID channel) (Selector channel) of
                Some err \<Rightarrow> (Some err, m)
              | None \<Rightarrow> (None, m)))"

definition restartManagerPeerReceivePush :: "manager \<Rightarrow> ChannelState \<Rightarrow> error option \<times> manager" where
  "restartManagerPeerReceivePush m channel =
     (case validateRestartVoucher m channel False of
        (Some err, m1) \<Rightarrow> (Some (Errorf ''failed to restart channel, validation error'' err), m1)
      | (None, m1) \<Rightarrow>
          (let req = RestartExistingChannelRequest (ChannelID channel)
           in dataTransferNetwork_SendMessage m1 (OtherParty channel (peerID m1)) req))"

definition restartManagerPeerReceivePull :: "manager \<Rightarrow> ChannelState \<Rightarrow> error option \<times> manager" where
  "restartManagerPeerReceivePull m channel =
     (case validateRestartVoucher m channel True of
        (Some err, m1) \<Rightarrow> (Some (Errorf ''failed to restart channel, validation error'' err), m1)
      | (None, m1) \<Rightarrow>
          (let req = RestartExistingChannelRequest (ChannelID channel)
           in dataTransferNetwork_SendMessage m1 (OtherParty channel (peerID m1)) req))"

definition openPushRestartChannel :: "manager \<Rightarrow> ChannelState \<Rightarrow> error option \<times> manager" where
  "openPushRestartChannel m channel =
     (let selector = Selector channel;
          voucher = Voucher channel;
          baseCid = BaseCID channel;
          requestTo = OtherParty channel (peerID m);
          chid = ChannelID channel
      in case message_NewRequest (ID chid) True False (Type voucher) voucher baseCid selector of
           Inl err \<Rightarrow> (Some err, m)
         | Inr req \<Rightarrow>
             (let m1 = (if transportConfigurers m (Type voucher)
                        then transportConfigurer m chid voucher else m);
                  m2 = dataTransferNetwork_Protect m1 requestTo (String chid)
              in case dataTransferNetwork_SendMessage m2 requestTo req of
                   (Some err, m3) \<Rightarrow>
                     (let err' = Errorf ''Unable to send request'' err
                      in (Some err', m_channels_Error m3 chid err'))
                 | (None, m3) \<Rightarrow> (None, m3)))"

definition openPullRestartChannel :: "manager \<Rightarrow> ChannelState \<Rightarrow> error option \<times> manager" where
  "openPullRestartChannel m channel =
     (let selector = Selector channel;
          voucher = Voucher channel;
          baseCid = BaseCID channel;
          requestTo = OtherParty channel (peerID m);
          chid = ChannelID channel
      in case message_NewRequest (ID chid) True True (Type voucher) voucher baseCid selector of
           Inl err \<Rightarrow> (Some err, m)
         | Inr req \<Rightarrow>
             (let m1 = (if transportConfigurers m (Type voucher)
                        then transportConfigurer m chid voucher else m);
                  m2 = dataTransferNetwork_Protect m1 requestTo (String chid)
              in case transport_OpenChannel m2 requestTo chid baseCid selector
                        (ReceivedCids channel) req of
                   (Some err, m3) \<Rightarrow>
                     (let err' = Errorf ''Unable to send request'' err
                      in (Some err', m_channels_Error m3 chid err'))
                 | (None, m3) \<Rightarrow> (None, m3)))"

definition validateRestartRequest ::
  "manager \<Rightarrow> peer_ID \<Rightarrow> ChannelID \<Rightarrow> Request \<Rightarrow> error option \<times> manager" where
  "validateRestartRequest m otherPeer chid req =
     (case GetByID (channels m) chid of
        Inl err \<Rightarrow> (Some err, m)
      | Inr channel \<Rightarrow>
          if IsChannelTerminated (Status channel)
          then (Some (New ''channel is already terminated''), m)
          else if Initiator (ChannelID channel) \<noteq> otherPeer
          then (Some (New ''other peer is not the initiator of the channel''), m)
          else if BaseCid req \<noteq> BaseCID channel
          then (Some (New ''base cid does not match''), m)
          else (case decodeVoucher m req of
                  Inl err \<Rightarrow> (Some (Errorf ''failed to decode request voucher'' err), m)
                | Inr reqVoucher \<Rightarrow>
                    if Type reqVoucher \<noteq> Type (Voucher channel)
                    then (Some (New ''channel and request voucher types do not match''), m)
                    else (case Encode reqVoucher of
                            Inl err \<Rightarrow> (Some (New ''failed to encode request voucher''), m)
                          | Inr reqBz \<Rightarrow>
                              (case Encode (Voucher channel) of
                                 Inl err \<Rightarrow> (Some (New ''failed to encode channel voucher''), m)
                               | Inr channelBz \<Rightarrow>
                                   if reqBz \<noteq> channelBz
                                   then (Some (New ''channel and request vouchers do not match''), m)
                                   else (None, m)))))"

section \<open>Counting the calls on the network\<close>



section \<open>A restart scenario\<close>

text \<open>
  The data of the spec's scenario "Restart after crash": peer A has opened a push to peer
  B with transfer id 11 and a voucher of type t1 with the byte 01; 500 bytes went each
  way. \<open>managerA\<close> is the initiator A, with a transport configurer registered for t1 and
  a network and a transport that answer every call with \<open>outcome\<close>; \<open>managerB\<close> is the
  responder B, whose validator answers \<open>verdict\<close>. Both hold the channel and have made
  no call yet.
\<close>

definition voucher_t1 :: Voucher where
  "voucher_t1 = \<lparr>encoded = Inr [1], Type = ''t1''\<rparr>"

definition selector_S1 :: Node where
  "selector_S1 = \<lparr>encoded = Inr [83, 49]\<rparr>"

definition chid11 :: ChannelID where
  "chid11 = \<lparr>Initiator = ''A'', ID = 11\<rparr>"

definition channel11 :: ChannelState where
  "channel11 =
     \<lparr>TransferID = 11, BaseCID = ''Qma'', Selector = selector_S1, Voucher = voucher_t1,
      Sender = ''A'', Recipient = ''B'', TotalSize = 0,
      IsPull = (\<lambda>initiator. initiator = ''B''),
      OtherParty = (\<lambda>thisParty. if thisParty = ''A'' then ''B'' else ''A''),
      Status = Ongoing, Sent = 500, Received = 500, Message = [],
      Vouchers = [voucher_t1], VoucherResults = [],
      LastVoucher = voucher_t1, LastVoucherResult = \<lparr>encoded = Inr [], Type = []\<rparr>,
      ChannelID = chid11, ReceivedCids = [''Qmb'']\<rparr>"

definition request11 :: "bool \<Rightarrow> bool \<Rightarrow> Request" where
  "request11 isRestart isPull =
     TransferRequest isRestart
       \<lparr>BCid = Some ''Qma'', Canc = False, Updt = False, Paus = False, Pull = isPull,
        Stor = Some [83, 49], Vouch = Some [1], VTyp = ''t1'', XferID = 11\<rparr>"

definition managerA :: "error option \<Rightarrow> manager" where
  "managerA outcome =
     \<lparr>peerID = ''A'', channels = [chid11 \<mapsto> channel11], calls = [],
      SendMessage = (\<lambda>p req. outcome),
      OpenChannel = (\<lambda>p chid root selector have req. outcome),
      decodeVoucher = (\<lambda>req. Inr voucher_t1),
      validateVoucher = (\<lambda>p req isPull baseCid selector. None),
      transportConfigurers = (\<lambda>t. t = ''t1'')\<rparr>"

definition managerB :: "error option \<Rightarrow> manager" where
  "managerB verdict =
     \<lparr>peerID = ''B'', channels = [chid11 \<mapsto> channel11], calls = [],
      SendMessage = (\<lambda>p req. None),
      OpenChannel = (\<lambda>p chid root selector have req. None),
      decodeVoucher = (\<lambda>req. Inr voucher_t1),
      validateVoucher = (\<lambda>p req isPull baseCid selector. verdict),
      transportConfigurers = (\<lambda>t. t = ''t1'')\<rparr>"



section \<open>The scenario's data, evaluated\<close>

lemma String_chid11: "String chid11 = ''A-11''"
  by (simp add: String_def chid11_def digits.simps)

lemma NewRequest_channel11:
  "message_NewRequest (ID (ChannelID channel11)) isRestart isPull (Type (Voucher channel11))
     (Voucher channel11) (BaseCID channel11) (Selector channel11) = Inr (request11 isRestart isPull)"
  by (simp add: message_NewRequest_def NewRequest_def Encode_def channel11_def chid11_def
      voucher_t1_def selector_S1_def request11_def Undef_def)

lemma channel11_fields:
  "OtherParty channel11 ''B'' = ''A''" "OtherParty channel11 ''A'' = ''B''"
  "ChannelID channel11 = chid11"
  "Voucher channel11 = voucher_t1" "BaseCID channel11 = ''Qma''"
  "Selector channel11 = selector_S1" "ReceivedCids channel11 = [''Qmb'']"
  "Status channel11 = Ongoing" "Type voucher_t1 = ''t1''"
  by (simp_all add: channel11_def voucher_t1_def)

lemma managerA_fields:
  "peerID (managerA outcome) = ''A''" "calls (managerA outcome) = []"
  "channels (managerA outcome) = [chid11 \<mapsto> channel11]"
  "SendMessage (managerA outcome) p req = outcome"
  "OpenChannel (managerA outcome) p chid root selector have req = outcome"
  "transportConfigurers (managerA outcome) t = (t = ''t1'')"
  by (simp_all add: managerA_def)

lemma managerB_fields:
  "peerID (managerB verdict) = ''B''" "calls (managerB verdict) = []"
  "SendMessage (managerB verdict) p req = None"
  "validateVoucher (managerB verdict) p req isPull baseCid selector = verdict"
  by (simp_all add: managerB_def)

section \<open>Properties of the message constructors\<close>

lemma NewRequest_Inr:
  assumes "NewRequest xid isPull vtype voucher baseCid selector = Inr body"
  shows "Pull body = isPull \<and> XferID body = xid \<and> VTyp body = vtype \<and> BCid body = Some baseCid"
  using assms by (auto simp: NewRequest_def split: sum.splits if_splits)

lemma message_NewRequest_Inr:
  assumes "message_NewRequest xid isRestart isPull vtype voucher baseCid selector = Inr req"
  shows "\<exists>body. req = TransferRequest isRestart body \<and> Pull body = isPull \<and> XferID body = xid \<and>
           VTyp body = vtype \<and> BCid body = Some baseCid"
proof (cases "NewRequest xid isPull vtype voucher baseCid selector")
  case (Inl err)
  with assms show ?thesis by (simp add: message_NewRequest_def)
next
  case (Inr body)
  with assms have "req = TransferRequest isRestart body" by (simp add: message_NewRequest_def)
  with NewRequest_Inr [OF Inr] show ?thesis by blast
qed

text \<open>
  C3. \<^verbatim>\<open>NewRequest\<close> returns an error exactly when the base CID is the undefined CID,
  or the voucher fails to encode, or the selector fails to encode; otherwise the request
  it returns has the given transfer id, pull flag, voucher type and base CID. (In
  message.go the function has no \<^verbatim>\<open>isRestart\<close> parameter; the property does not
  depend on one.)
\<close>

theorem NewRequest_result:
  "(isl (NewRequest xid isPull vtype voucher baseCid selector) \<longleftrightarrow>
      baseCid = Undef \<or> isl (Encode voucher) \<or> isl (Encode selector)) \<and>
   (\<forall>req. NewRequest xid isPull vtype voucher baseCid selector = Inr req \<longrightarrow>
      XferID req = xid \<and> Pull req = isPull \<and> VTyp req = vtype \<and> BCid req = Some baseCid)"
proof
  show "isl (NewRequest xid isPull vtype voucher baseCid selector) \<longleftrightarrow>
      baseCid = Undef \<or> isl (Encode voucher) \<or> isl (Encode selector)"
    by (cases "Encode voucher"; cases "Encode selector") (simp_all add: NewRequest_def)
  show "\<forall>req. NewRequest xid isPull vtype voucher baseCid selector = Inr req \<longrightarrow>
      XferID req = xid \<and> Pull req = isPull \<and> VTyp req = vtype \<and> BCid req = Some baseCid"
    using NewRequest_Inr [of xid isPull vtype voucher baseCid selector] by blast
qed

text \<open>The request of the scenario, and the same call with the undefined CID.\<close>

theorem NewRequest_result_witness:
  "NewRequest 11 False ''t1'' voucher_t1 ''Qma'' selector_S1 =
     Inr \<lparr>BCid = Some ''Qma'', Canc = False, Updt = False, Paus = False, Pull = False,
          Stor = Some [83, 49], Vouch = Some [1], VTyp = ''t1'', XferID = 11\<rparr> \<and>
   XferID (projr (NewRequest 11 False ''t1'' voucher_t1 ''Qma'' selector_S1)) = 11 \<and>
   isl (NewRequest 11 False ''t1'' voucher_t1 Undef selector_S1)"
  using NewRequest_result [of 11 False "''t1''" voucher_t1 "''Qma''" selector_S1]
    NewRequest_result [of 11 False "''t1''" voucher_t1 Undef selector_S1]
  by (simp add: NewRequest_def Encode_def voucher_t1_def selector_S1_def Undef_def)

section \<open>Properties of \<^verbatim>\<open>FromNet\<close>\<close>

text \<open>
  C9. When \<^verbatim>\<open>UnmarshalCBOR\<close> returns an error \<open>e\<close> and leaves an envelope that
  reports \<^verbatim>\<open>IsRequest()\<close>, \<^verbatim>\<open>FromNet\<close> returns the envelope's request (nil or not)
  with a nil error; it returns the error \<open>e\<close> exactly when the envelope does not report
  \<^verbatim>\<open>IsRequest()\<close>, together with the envelope's response.
\<close>

theorem FromNet_error_only_for_response:
  assumes "UnmarshalCBOR \<lparr>IsRq = False, Request = None, Response = None\<rparr> r = (tresp, Some e)"
  shows "(IsRequest tresp \<longrightarrow> FromNet UnmarshalCBOR r = (RequestMsg (Request tresp), None)) \<and>
         (\<not> IsRequest tresp \<longrightarrow> FromNet UnmarshalCBOR r = (ResponseMsg (Response tresp), Some e)) \<and>
         (snd (FromNet UnmarshalCBOR r) = Some e \<longleftrightarrow> \<not> IsRequest tresp)"
  using assms by (simp add: FromNet_def)

text \<open>A decoder that fails after it has set the request flag, and one that fails before.\<close>

theorem FromNet_error_only_for_response_witness:
  "FromNet (\<lambda>tm r. (tm\<lparr>IsRq := True\<rparr>, Some (New ''unexpected EOF''))) [] = (RequestMsg None, None) \<and>
   FromNet (\<lambda>tm r. (tm, Some (New ''unexpected EOF''))) [] =
     (ResponseMsg None, Some (New ''unexpected EOF''))"
  using FromNet_error_only_for_response
      [of "\<lambda>tm r. (tm\<lparr>IsRq := True\<rparr>, Some (New ''unexpected EOF''))" "[]"
          "\<lparr>IsRq = True, Request = None, Response = None\<rparr>" "New ''unexpected EOF''"]
    FromNet_error_only_for_response
      [of "\<lambda>tm r. (tm, Some (New ''unexpected EOF''))" "[]"
          "\<lparr>IsRq = False, Request = None, Response = None\<rparr>" "New ''unexpected EOF''"]
  by (simp add: IsRequest_def)

section \<open>The observers of the message interfaces\<close>

text \<open>
  C8, amended. Every message interface of message.go exposes \<^verbatim>\<open>IsRequest\<close>,
  \<^verbatim>\<open>IsUpdate\<close>, \<^verbatim>\<open>IsPaused\<close> and \<^verbatim>\<open>IsCancel\<close>, and the response interface exposes
  \<^verbatim>\<open>Accepted\<close>; the request interface exposes neither \<^verbatim>\<open>IsRestart\<close> nor
  \<^verbatim>\<open>IsComplete\<close>, and the response interface no \<^verbatim>\<open>IsVoucherRequest\<close>.
\<close>

theorem message_interfaces_flags:
  "(exposes DataTransferMessage ''IsRequest'' \<and> exposes DataTransferMessage ''IsUpdate'' \<and>
    exposes DataTransferMessage ''IsPaused'' \<and> exposes DataTransferMessage ''IsCancel'') \<and>
   (exposes DataTransferRequest ''IsRequest'' \<and> exposes DataTransferRequest ''IsUpdate'' \<and>
    exposes DataTransferRequest ''IsPaused'' \<and> exposes DataTransferRequest ''IsCancel'') \<and>
   (exposes DataTransferResponse ''IsRequest'' \<and> exposes DataTransferResponse ''IsUpdate'' \<and>
    exposes DataTransferResponse ''IsPaused'' \<and> exposes DataTransferResponse ''IsCancel'') \<and>
   exposes DataTransferResponse ''Accepted'' \<and>
   \<not> exposes DataTransferRequest ''IsRestart'' \<and>
   \<not> exposes DataTransferRequest ''IsComplete'' \<and>
   \<not> exposes DataTransferResponse ''IsVoucherRequest''"
  by (simp add: exposes_def DataTransferRequest_def DataTransferResponse_def DataTransferMessage_def)

text \<open>The request interface has no observer of a restart flag.\<close>

theorem message_interfaces_no_restart_counterexample:
  "\<not> exposes DataTransferRequest ''IsRestart''"
  by (simp add: exposes_def DataTransferRequest_def DataTransferMessage_def)

section \<open>Properties of \<^verbatim>\<open>validateRestartRequest\<close>\<close>

text \<open>Each check returns its own error as soon as it fails, whatever the later ones
  would find.\<close>

lemma validateRestartRequest_first_failure:
  "channels m chid = None \<Longrightarrow>
     fst (validateRestartRequest m otherPeer chid req) = Some ErrChannelNotFound"
  "channels m chid = Some channel \<Longrightarrow> IsChannelTerminated (Status channel) \<Longrightarrow>
     fst (validateRestartRequest m otherPeer chid req) = Some (New ''channel is already terminated'')"
  "channels m chid = Some channel \<Longrightarrow> \<not> IsChannelTerminated (Status channel) \<Longrightarrow>
   Initiator (ChannelID channel) \<noteq> otherPeer \<Longrightarrow>
     fst (validateRestartRequest m otherPeer chid req) =
       Some (New ''other peer is not the initiator of the channel'')"
  "channels m chid = Some channel \<Longrightarrow> \<not> IsChannelTerminated (Status channel) \<Longrightarrow>
   Initiator (ChannelID channel) = otherPeer \<Longrightarrow> BaseCid req \<noteq> BaseCID channel \<Longrightarrow>
     fst (validateRestartRequest m otherPeer chid req) = Some (New ''base cid does not match'')"
  by (simp_all add: validateRestartRequest_def GetByID_def)

text \<open>
  C1. \<^verbatim>\<open>validateRestartRequest\<close> returns nil exactly when (1) the channel store has a
  channel under the given channel id, (2) its status is not terminal, (3) the initiator
  of its channel id is the peer that sent the message, (4) the base CID of the request is
  the base CID of the channel, (5) the request's voucher decodes and its type identifier
  is the one of the channel's voucher, and (6) both vouchers encode, to the same bytes.
  Otherwise it returns an error.
\<close>

theorem validateRestartRequest_nil_iff:
  "fst (validateRestartRequest m otherPeer chid req) = None \<longleftrightarrow>
     (\<exists>channel. channels m chid = Some channel \<and>
        \<not> IsChannelTerminated (Status channel) \<and>
        Initiator (ChannelID channel) = otherPeer \<and>
        BaseCid req = BaseCID channel \<and>
        (\<exists>reqVoucher. decodeVoucher m req = Inr reqVoucher \<and>
           Type reqVoucher = Type (Voucher channel) \<and>
           (\<exists>bz. Encode reqVoucher = Inr bz \<and> Encode (Voucher channel) = Inr bz)))"
proof (cases "channels m chid")
  case None
  then show ?thesis
    using validateRestartRequest_first_failure(1) [of m chid otherPeer req] by simp
next
  case (Some channel)
  show ?thesis
  proof (cases "IsChannelTerminated (Status channel) \<or> Initiator (ChannelID channel) \<noteq> otherPeer
                \<or> BaseCid req \<noteq> BaseCID channel")
    case True
    then have "fst (validateRestartRequest m otherPeer chid req) \<noteq> None"
      using Some validateRestartRequest_first_failure(2-4) [of m chid channel otherPeer req]
      by auto
    with True Some show ?thesis by auto
  next
    case False
    with Some have "fst (validateRestartRequest m otherPeer chid req) = None \<longleftrightarrow>
      (\<exists>reqVoucher. decodeVoucher m req = Inr reqVoucher \<and>
           Type reqVoucher = Type (Voucher channel) \<and>
           (\<exists>bz. Encode reqVoucher = Inr bz \<and> Encode (Voucher channel) = Inr bz))"
      by (auto simp: validateRestartRequest_def GetByID_def split: sum.splits)
    with False Some show ?thesis by simp
  qed
qed

text \<open>The scenario's restart request is accepted from A and refused from B.\<close>

theorem validateRestartRequest_nil_iff_witness:
  "fst (validateRestartRequest (managerA None) ''A'' chid11 (request11 True False)) = None \<and>
   fst (validateRestartRequest (managerA None) ''B'' chid11 (request11 True False)) \<noteq> None"
  using validateRestartRequest_nil_iff [of "managerA None" "''A''" chid11 "request11 True False"]
    validateRestartRequest_nil_iff [of "managerA None" "''B''" chid11 "request11 True False"]
  by (simp add: managerA_def channel11_def chid11_def request11_def voucher_t1_def
      IsChannelTerminated_def Encode_def)

text \<open>
  C10. \<^verbatim>\<open>validateRestartRequest\<close> leaves the manager as it found it, whether it
  returns nil or an error: the channel store, each channel state in it, and the calls
  made are the same after the call.
\<close>

theorem validateRestartRequest_frame:
  "snd (validateRestartRequest m otherPeer chid req) = m \<and>
   channels (snd (validateRestartRequest m otherPeer chid req)) = channels m \<and>
   channels (snd (validateRestartRequest m otherPeer chid req)) chid = channels m chid \<and>
   calls (snd (validateRestartRequest m otherPeer chid req)) = calls m"
proof -
  have "snd (validateRestartRequest m otherPeer chid req) = m"
    by (simp add: validateRestartRequest_def split: sum.splits)
  then show ?thesis by simp
qed

section \<open>Properties of the responder's restart path\<close>

lemma validateRestartVoucher_state: "snd (validateRestartVoucher m channel isPull) = m"
  by (simp add: validateRestartVoucher_def Let_def split: sum.splits option.splits)

lemma validateRestartVoucher_nil_iff:
  "fst (validateRestartVoucher m channel isPull) = None \<longleftrightarrow>
     (\<exists>req. message_NewRequest (ID (ChannelID channel)) False isPull (Type (Voucher channel))
               (Voucher channel) (BaseCID channel) (Selector channel) = Inr req \<and>
            validateVoucher m (OtherParty channel (peerID m)) req isPull
               (BaseCID channel) (Selector channel) = None)"
  by (auto simp: validateRestartVoucher_def Let_def split: sum.splits option.splits)

lemma restartManagerPeerReceivePush_invalid:
  assumes "fst (validateRestartVoucher m channel False) \<noteq> None"
  shows "fst (restartManagerPeerReceivePush m channel) \<noteq> None \<and>
         snd (restartManagerPeerReceivePush m channel) = m"
proof -
  obtain err where "validateRestartVoucher m channel False = (Some err, m)"
    using assms validateRestartVoucher_state [of m channel False]
    by (cases "validateRestartVoucher m channel False") auto
  then show ?thesis by (simp add: restartManagerPeerReceivePush_def)
qed

lemma restartManagerPeerReceivePush_valid:
  assumes "fst (validateRestartVoucher m channel False) = None"
  shows "restartManagerPeerReceivePush m channel =
           (SendMessage m (OtherParty channel (peerID m))
              (RestartExistingChannelRequest (ChannelID channel)),
            m\<lparr>calls := calls m @
                 [Net_SendMessage (OtherParty channel (peerID m))
                    (RestartExistingChannelRequest (ChannelID channel))]\<rparr>)"
proof -
  have "validateRestartVoucher m channel False = (None, m)"
    using assms validateRestartVoucher_state [of m channel False]
    by (cases "validateRestartVoucher m channel False") auto
  then show ?thesis
    by (simp add: restartManagerPeerReceivePush_def dataTransferNetwork_SendMessage_def)
qed

lemma restartManagerPeerReceivePull_invalid:
  assumes "fst (validateRestartVoucher m channel True) \<noteq> None"
  shows "fst (restartManagerPeerReceivePull m channel) \<noteq> None \<and>
         snd (restartManagerPeerReceivePull m channel) = m"
proof -
  obtain err where "validateRestartVoucher m channel True = (Some err, m)"
    using assms validateRestartVoucher_state [of m channel True]
    by (cases "validateRestartVoucher m channel True") auto
  then show ?thesis by (simp add: restartManagerPeerReceivePull_def)
qed

lemma restartManagerPeerReceivePull_valid:
  assumes "fst (validateRestartVoucher m channel True) = None"
  shows "restartManagerPeerReceivePull m channel =
           (SendMessage m (OtherParty channel (peerID m))
              (RestartExistingChannelRequest (ChannelID channel)),
            m\<lparr>calls := calls m @
                 [Net_SendMessage (OtherParty channel (peerID m))
                    (RestartExistingChannelRequest (ChannelID channel))]\<rparr>)"
proof -
  have "validateRestartVoucher m channel True = (None, m)"
    using assms validateRestartVoucher_state [of m channel True]
    by (cases "validateRestartVoucher m channel True") auto
  then show ?thesis
    by (simp add: restartManagerPeerReceivePull_def dataTransferNetwork_SendMessage_def)
qed

text \<open>
  C4. On the responder's restart path the channel's original voucher is validated again
  first: \<^verbatim>\<open>validateRestartVoucher\<close> returns nil exactly when \<^verbatim>\<open>message.NewRequest\<close>
  rebuilds, with no restart flag, the request that would have created the channel and
  \<^verbatim>\<open>validateVoucher\<close> accepts that request from the other party. When it returns an
  error, \<^verbatim>\<open>restartManagerPeerReceivePush\<close> and \<^verbatim>\<open>restartManagerPeerReceivePull\<close>
  return an error and leave the manager as it was, so that no message is sent. When it
  returns nil, they make one call, \<^verbatim>\<open>SendMessage\<close> of the restart request for the
  channel's id to the other party, and return what that call returns.
\<close>

theorem restartManagerPeerReceive_revalidates:
  "(fst (validateRestartVoucher m channel isPull) = None \<longleftrightarrow>
      (\<exists>req. message_NewRequest (ID (ChannelID channel)) False isPull (Type (Voucher channel))
                (Voucher channel) (BaseCID channel) (Selector channel) = Inr req \<and>
             validateVoucher m (OtherParty channel (peerID m)) req isPull
                (BaseCID channel) (Selector channel) = None)) \<and>
   (fst (validateRestartVoucher m channel False) \<noteq> None \<longrightarrow>
      fst (restartManagerPeerReceivePush m channel) \<noteq> None \<and>
      snd (restartManagerPeerReceivePush m channel) = m) \<and>
   (fst (validateRestartVoucher m channel False) = None \<longrightarrow>
      fst (restartManagerPeerReceivePush m channel) =
        SendMessage m (OtherParty channel (peerID m))
          (RestartExistingChannelRequest (ChannelID channel)) \<and>
      calls (snd (restartManagerPeerReceivePush m channel)) =
        calls m @ [Net_SendMessage (OtherParty channel (peerID m))
                     (RestartExistingChannelRequest (ChannelID channel))] \<and>
      channels (snd (restartManagerPeerReceivePush m channel)) = channels m) \<and>
   (fst (validateRestartVoucher m channel True) \<noteq> None \<longrightarrow>
      fst (restartManagerPeerReceivePull m channel) \<noteq> None \<and>
      snd (restartManagerPeerReceivePull m channel) = m) \<and>
   (fst (validateRestartVoucher m channel True) = None \<longrightarrow>
      fst (restartManagerPeerReceivePull m channel) =
        SendMessage m (OtherParty channel (peerID m))
          (RestartExistingChannelRequest (ChannelID channel)) \<and>
      calls (snd (restartManagerPeerReceivePull m channel)) =
        calls m @ [Net_SendMessage (OtherParty channel (peerID m))
                     (RestartExistingChannelRequest (ChannelID channel))] \<and>
      channels (snd (restartManagerPeerReceivePull m channel)) = channels m)"
  using validateRestartVoucher_nil_iff [of m channel isPull]
    restartManagerPeerReceivePush_invalid [of m channel]
    restartManagerPeerReceivePush_valid [of m channel]
    restartManagerPeerReceivePull_invalid [of m channel]
    restartManagerPeerReceivePull_valid [of m channel]
  by simp

text \<open>At the responder of the scenario: a validator that accepts and one that rejects.\<close>

theorem restartManagerPeerReceive_revalidates_witness:
  "fst (restartManagerPeerReceivePush (managerB None) channel11) = None \<and>
   calls (snd (restartManagerPeerReceivePush (managerB None) channel11)) =
     [Net_SendMessage ''A'' (RestartExistingChannelRequest chid11)] \<and>
   fst (restartManagerPeerReceivePull (managerB None) channel11) = None \<and>
   calls (snd (restartManagerPeerReceivePull (managerB None) channel11)) =
     [Net_SendMessage ''A'' (RestartExistingChannelRequest chid11)] \<and>
   fst (restartManagerPeerReceivePush (managerB (Some (New ''rejected''))) channel11) \<noteq> None \<and>
   calls (snd (restartManagerPeerReceivePush (managerB (Some (New ''rejected''))) channel11)) = [] \<and>
   fst (restartManagerPeerReceivePull (managerB (Some (New ''rejected''))) channel11) \<noteq> None \<and>
   calls (snd (restartManagerPeerReceivePull (managerB (Some (New ''rejected''))) channel11)) = []"
proof -
  have ok: "fst (validateRestartVoucher (managerB None) channel11 isPull) = None" for isPull
    by (simp add: validateRestartVoucher_def NewRequest_channel11 managerB_fields)
  have bad: "fst (validateRestartVoucher (managerB (Some (New ''rejected''))) channel11 isPull) \<noteq> None"
    for isPull
    by (simp add: validateRestartVoucher_def NewRequest_channel11 managerB_fields)
  from restartManagerPeerReceive_revalidates [of "managerB None" channel11 False] ok
  have accepted:
    "fst (restartManagerPeerReceivePush (managerB None) channel11) = None \<and>
     calls (snd (restartManagerPeerReceivePush (managerB None) channel11)) =
       [Net_SendMessage ''A'' (RestartExistingChannelRequest chid11)] \<and>
     fst (restartManagerPeerReceivePull (managerB None) channel11) = None \<and>
     calls (snd (restartManagerPeerReceivePull (managerB None) channel11)) =
       [Net_SendMessage ''A'' (RestartExistingChannelRequest chid11)]"
    by (simp add: managerB_fields channel11_fields)
  from restartManagerPeerReceive_revalidates [of "managerB (Some (New ''rejected''))" channel11 False] bad
  have rejected:
    "fst (restartManagerPeerReceivePush (managerB (Some (New ''rejected''))) channel11) \<noteq> None \<and>
     calls (snd (restartManagerPeerReceivePush (managerB (Some (New ''rejected''))) channel11)) = [] \<and>
     fst (restartManagerPeerReceivePull (managerB (Some (New ''rejected''))) channel11) \<noteq> None \<and>
     calls (snd (restartManagerPeerReceivePull (managerB (Some (New ''rejected''))) channel11)) = []"
    by (simp add: managerB_fields)
  from accepted rejected show ?thesis by simp
qed

section \<open>Properties of the initiator's restart path\<close>



lemma openPushRestartChannel_calls:
  assumes "message_NewRequest (ID (ChannelID channel)) True False (Type (Voucher channel))
             (Voucher channel) (BaseCID channel) (Selector channel) = Inr req"
  shows "calls (snd (openPushRestartChannel m channel)) =
           calls m @
           (if transportConfigurers m (Type (Voucher channel))
            then [TransportConfigurer (ChannelID channel) (Voucher channel)] else []) @
           [Net_Protect (OtherParty channel (peerID m)) (String (ChannelID channel)),
            Net_SendMessage (OtherParty channel (peerID m)) req]"
  using assms
  by (simp add: openPushRestartChannel_def Let_def dataTransferNetwork_SendMessage_def
      dataTransferNetwork_Protect_def transportConfigurer_def m_channels_Error_def
      split: option.splits)

lemma openPullRestartChannel_calls:
  assumes "message_NewRequest (ID (ChannelID channel)) True True (Type (Voucher channel))
             (Voucher channel) (BaseCID channel) (Selector channel) = Inr req"
  shows "calls (snd (openPullRestartChannel m channel)) =
           calls m @
           (if transportConfigurers m (Type (Voucher channel))
            then [TransportConfigurer (ChannelID channel) (Voucher channel)] else []) @
           [Net_Protect (OtherParty channel (peerID m)) (String (ChannelID channel)),
            Transport_OpenChannel (OtherParty channel (peerID m)) (ChannelID channel)
              (BaseCID channel) (Selector channel) (ReceivedCids channel) req]"
  using assms
  by (simp add: openPullRestartChannel_def Let_def transport_OpenChannel_def
      dataTransferNetwork_Protect_def transportConfigurer_def m_channels_Error_def
      split: option.splits)

lemma openPushRestartChannel_failed_send:
  assumes "message_NewRequest (ID (ChannelID channel)) True False (Type (Voucher channel))
             (Voucher channel) (BaseCID channel) (Selector channel) = Inr req"
    and "SendMessage m (OtherParty channel (peerID m)) req = Some err"
  shows "fst (openPushRestartChannel m channel) = Some (Errorf ''Unable to send request'' err)"
    and "channels (snd (openPushRestartChannel m channel)) =
           snd (channels_Error (channels m) (ChannelID channel)
                  (Errorf ''Unable to send request'' err))"
  using assms
  by (simp_all add: openPushRestartChannel_def Let_def dataTransferNetwork_SendMessage_def
      dataTransferNetwork_Protect_def transportConfigurer_def m_channels_Error_def)

lemma openPullRestartChannel_failed_open:
  assumes "message_NewRequest (ID (ChannelID channel)) True True (Type (Voucher channel))
             (Voucher channel) (BaseCID channel) (Selector channel) = Inr req"
    and "OpenChannel m (OtherParty channel (peerID m)) (ChannelID channel) (BaseCID channel)
           (Selector channel) (ReceivedCids channel) req = Some err"
  shows "fst (openPullRestartChannel m channel) = Some (Errorf ''Unable to send request'' err)"
    and "channels (snd (openPullRestartChannel m channel)) =
           snd (channels_Error (channels m) (ChannelID channel)
                  (Errorf ''Unable to send request'' err))"
  using assms
  by (simp_all add: openPullRestartChannel_def Let_def transport_OpenChannel_def
      dataTransferNetwork_Protect_def transportConfigurer_def m_channels_Error_def)


lemma channels_Error_Failed:
  assumes "store chid = Some channel" and "\<not> IsChannelTerminated (Status channel)"
  shows "map_option Status (snd (channels_Error store chid err) chid) = Some Failed"
  using assms by (simp add: channels_Error_def)

text \<open>
  C5. When \<^verbatim>\<open>openPushRestartChannel\<close> has built its request, which is a
  \<^verbatim>\<open>NewRequest\<close> with the restart flag and without the pull flag, the calls it makes
  are, in this order: the transport configurer, if one is registered for the type of the
  voucher; \<^verbatim>\<open>Protect\<close> of the other party under the channel id's string;
  \<^verbatim>\<open>SendMessage\<close> of the request to the other party.
  \<^verbatim>\<open>openPullRestartChannel\<close> builds the request with the pull flag and makes the same
  calls, with \<^verbatim>\<open>OpenChannel\<close> on the transport in the place of \<^verbatim>\<open>SendMessage\<close>,
  passing the channel's received CIDs.
\<close>

theorem openRestartChannel_calls:
  "(\<forall>req. message_NewRequest (ID (ChannelID channel)) True False (Type (Voucher channel))
            (Voucher channel) (BaseCID channel) (Selector channel) = Inr req \<longrightarrow>
      (\<exists>body. req = TransferRequest True body \<and> \<not> Pull body) \<and>
      calls (snd (openPushRestartChannel m channel)) =
        calls m @
        (if transportConfigurers m (Type (Voucher channel))
         then [TransportConfigurer (ChannelID channel) (Voucher channel)] else []) @
        [Net_Protect (OtherParty channel (peerID m)) (String (ChannelID channel)),
         Net_SendMessage (OtherParty channel (peerID m)) req]) \<and>
   (\<forall>req. message_NewRequest (ID (ChannelID channel)) True True (Type (Voucher channel))
            (Voucher channel) (BaseCID channel) (Selector channel) = Inr req \<longrightarrow>
      (\<exists>body. req = TransferRequest True body \<and> Pull body) \<and>
      calls (snd (openPullRestartChannel m channel)) =
        calls m @
        (if transportConfigurers m (Type (Voucher channel))
         then [TransportConfigurer (ChannelID channel) (Voucher channel)] else []) @
        [Net_Protect (OtherParty channel (peerID m)) (String (ChannelID channel)),
         Transport_OpenChannel (OtherParty channel (peerID m)) (ChannelID channel)
           (BaseCID channel) (Selector channel) (ReceivedCids channel) req])"
proof (intro conjI allI impI)
  fix req
  assume built: "message_NewRequest (ID (ChannelID channel)) True False (Type (Voucher channel))
            (Voucher channel) (BaseCID channel) (Selector channel) = Inr req"
  from message_NewRequest_Inr [OF built]
  show "\<exists>body. req = TransferRequest True body \<and> \<not> Pull body" by auto
  from openPushRestartChannel_calls [OF built]
  show "calls (snd (openPushRestartChannel m channel)) =
        calls m @
        (if transportConfigurers m (Type (Voucher channel))
         then [TransportConfigurer (ChannelID channel) (Voucher channel)] else []) @
        [Net_Protect (OtherParty channel (peerID m)) (String (ChannelID channel)),
         Net_SendMessage (OtherParty channel (peerID m)) req]" .
next
  fix req
  assume built: "message_NewRequest (ID (ChannelID channel)) True True (Type (Voucher channel))
            (Voucher channel) (BaseCID channel) (Selector channel) = Inr req"
  from message_NewRequest_Inr [OF built]
  show "\<exists>body. req = TransferRequest True body \<and> Pull body" by auto
  from openPullRestartChannel_calls [OF built]
  show "calls (snd (openPullRestartChannel m channel)) =
        calls m @
        (if transportConfigurers m (Type (Voucher channel))
         then [TransportConfigurer (ChannelID channel) (Voucher channel)] else []) @
        [Net_Protect (OtherParty channel (peerID m)) (String (ChannelID channel)),
         Transport_OpenChannel (OtherParty channel (peerID m)) (ChannelID channel)
           (BaseCID channel) (Selector channel) (ReceivedCids channel) req]" .
qed

text \<open>At the initiator of the scenario, with a network that accepts the request.\<close>

theorem openRestartChannel_calls_witness:
  "calls (snd (openPushRestartChannel (managerA None) channel11)) =
     [TransportConfigurer chid11 voucher_t1, Net_Protect ''B'' ''A-11'',
      Net_SendMessage ''B'' (request11 True False)] \<and>
   calls (snd (openPullRestartChannel (managerA None) channel11)) =
     [TransportConfigurer chid11 voucher_t1, Net_Protect ''B'' ''A-11'',
      Transport_OpenChannel ''B'' chid11 ''Qma'' selector_S1 [''Qmb''] (request11 True True)]"
  using openRestartChannel_calls [of channel11 "managerA None"]
    NewRequest_channel11 [of True False] NewRequest_channel11 [of True True]
  by (simp add: managerA_fields channel11_fields String_chid11)

text \<open>
  C6. For a channel that is in the store and not terminal: when \<^verbatim>\<open>SendMessage\<close>
  fails in \<^verbatim>\<open>openPushRestartChannel\<close>, or \<^verbatim>\<open>OpenChannel\<close> in
  \<^verbatim>\<open>openPullRestartChannel\<close>, the function returns that error, wrapped under
  "Unable to send request", and the store is the one \<^verbatim>\<open>channels.Error\<close> leaves for
  the channel id and that error, in which the channel has the status Failed.
\<close>

theorem openRestartChannel_failure:
  assumes "channels m (ChannelID channel) = Some c" and "\<not> IsChannelTerminated (Status c)"
  shows
  "(\<forall>req err.
      message_NewRequest (ID (ChannelID channel)) True False (Type (Voucher channel))
        (Voucher channel) (BaseCID channel) (Selector channel) = Inr req \<and>
      SendMessage m (OtherParty channel (peerID m)) req = Some err \<longrightarrow>
      fst (openPushRestartChannel m channel) = Some (Errorf ''Unable to send request'' err) \<and>
      channels (snd (openPushRestartChannel m channel)) =
        snd (channels_Error (channels m) (ChannelID channel)
               (Errorf ''Unable to send request'' err)) \<and>
      map_option Status (channels (snd (openPushRestartChannel m channel)) (ChannelID channel)) =
        Some Failed) \<and>
   (\<forall>req err.
      message_NewRequest (ID (ChannelID channel)) True True (Type (Voucher channel))
        (Voucher channel) (BaseCID channel) (Selector channel) = Inr req \<and>
      OpenChannel m (OtherParty channel (peerID m)) (ChannelID channel) (BaseCID channel)
        (Selector channel) (ReceivedCids channel) req = Some err \<longrightarrow>
      fst (openPullRestartChannel m channel) = Some (Errorf ''Unable to send request'' err) \<and>
      channels (snd (openPullRestartChannel m channel)) =
        snd (channels_Error (channels m) (ChannelID channel)
               (Errorf ''Unable to send request'' err)) \<and>
      map_option Status (channels (snd (openPullRestartChannel m channel)) (ChannelID channel)) =
        Some Failed)"
proof (intro conjI allI impI; elim conjE)
  fix req err
  assume built: "message_NewRequest (ID (ChannelID channel)) True False (Type (Voucher channel))
        (Voucher channel) (BaseCID channel) (Selector channel) = Inr req"
    and failed: "SendMessage m (OtherParty channel (peerID m)) req = Some err"
  note push = openPushRestartChannel_failed_send [OF built failed]
  show "fst (openPushRestartChannel m channel) = Some (Errorf ''Unable to send request'' err)"
    by (rule push(1))
  show "channels (snd (openPushRestartChannel m channel)) =
        snd (channels_Error (channels m) (ChannelID channel)
               (Errorf ''Unable to send request'' err))"
    by (rule push(2))
  show "map_option Status (channels (snd (openPushRestartChannel m channel)) (ChannelID channel)) =
        Some Failed"
    using channels_Error_Failed [of "channels m" "ChannelID channel" c] assms by (simp add: push(2))
next
  fix req err
  assume built: "message_NewRequest (ID (ChannelID channel)) True True (Type (Voucher channel))
        (Voucher channel) (BaseCID channel) (Selector channel) = Inr req"
    and failed: "OpenChannel m (OtherParty channel (peerID m)) (ChannelID channel) (BaseCID channel)
        (Selector channel) (ReceivedCids channel) req = Some err"
  note pull = openPullRestartChannel_failed_open [OF built failed]
  show "fst (openPullRestartChannel m channel) = Some (Errorf ''Unable to send request'' err)"
    by (rule pull(1))
  show "channels (snd (openPullRestartChannel m channel)) =
        snd (channels_Error (channels m) (ChannelID channel)
               (Errorf ''Unable to send request'' err))"
    by (rule pull(2))
  show "map_option Status (channels (snd (openPullRestartChannel m channel)) (ChannelID channel)) =
        Some Failed"
    using channels_Error_Failed [of "channels m" "ChannelID channel" c] assms by (simp add: pull(2))
qed

text \<open>At the initiator of the scenario, with a network that resets the stream.\<close>

theorem openRestartChannel_failure_witness:
  "fst (openPushRestartChannel (managerA (Some (New ''stream reset''))) channel11) =
     Some (Errorf ''Unable to send request'' (New ''stream reset'')) \<and>
   map_option Status
     (channels (snd (openPushRestartChannel (managerA (Some (New ''stream reset''))) channel11)) chid11) =
     Some Failed \<and>
   map_option Message
     (channels (snd (openPushRestartChannel (managerA (Some (New ''stream reset''))) channel11)) chid11) =
     Some ''Unable to send request: stream reset'' \<and>
   fst (openPullRestartChannel (managerA (Some (New ''stream reset''))) channel11) =
     Some (Errorf ''Unable to send request'' (New ''stream reset'')) \<and>
   map_option Status
     (channels (snd (openPullRestartChannel (managerA (Some (New ''stream reset''))) channel11)) chid11) =
     Some Failed"
proof -
  have stored: "channels (managerA (Some (New ''stream reset''))) (ChannelID channel11) = Some channel11"
    by (simp add: managerA_fields channel11_fields)
  have live: "\<not> IsChannelTerminated (Status channel11)"
    by (simp add: channel11_fields IsChannelTerminated_def)
  from openRestartChannel_failure [OF stored live]
    NewRequest_channel11 [of True False] NewRequest_channel11 [of True True]
  show ?thesis
    by (simp add: managerA_fields channel11_fields channels_Error_def
        IsChannelTerminated_def)
qed






end
